theory Spec2Isabelle
  imports Main
begin

section \<open>Python values\<close>

text \<open>
  A Python \<open>str\<close> is a sequence of Unicode code points: \<open>len\<close>, slicing and
  \<open>split\<close> count code points, so a string is a list of code points here and the
  literals of \<open>main.py\<close> outside ASCII are written by their code points.
\<close>

type_synonym str = "nat list"

definition lit :: "string \<Rightarrow> str" where
  "lit s = map of_char s"

definition nl :: str where
  "nl = [10]"

text \<open>\<open>str.isspace\<close> on one code point (the Unicode white space of CPython).\<close>

definition py_isspace :: "nat \<Rightarrow> bool" where
  "py_isspace c \<longleftrightarrow>
     (9 \<le> c \<and> c \<le> 13) \<or> (28 \<le> c \<and> c \<le> 32) \<or> c = 133 \<or> c = 160 \<or> c = 5760 \<or>
     (8192 \<le> c \<and> c \<le> 8202) \<or> c = 8232 \<or> c = 8233 \<or> c = 8239 \<or> c = 8287 \<or> c = 12288"

text \<open>\<open>" ".join(xs)\<close>\<close>

fun join_space :: "str list \<Rightarrow> str" where
  "join_space [] = []"
| "join_space [x] = x"
| "join_space (x # y # zs) = x @ [32] @ join_space (y # zs)"

text \<open>\<open>s.startswith(p)\<close>\<close>

definition startswith :: "str \<Rightarrow> str \<Rightarrow> bool" where
  "startswith s p \<longleftrightarrow> take (length p) s = p"

text \<open>\<open>s.strip()\<close> and \<open>s.strip('@')\<close>\<close>

definition strip_by :: "(nat \<Rightarrow> bool) \<Rightarrow> str \<Rightarrow> str" where
  "strip_by P s = rev (dropWhile P (rev (dropWhile P s)))"

definition strip :: "str \<Rightarrow> str" where
  "strip s = strip_by py_isspace s"

definition strip_at :: "str \<Rightarrow> str" where
  "strip_at s = strip_by (\<lambda>c. c = 64) s"

text \<open>\<open>s.split()\<close>: the maximal runs of characters that are not white space.\<close>

fun split_ws :: "str \<Rightarrow> str \<Rightarrow> str list" where
  "split_ws cur [] = (if cur = [] then [] else [cur])"
| "split_ws cur (c # cs) =
     (if py_isspace c then (if cur = [] then split_ws [] cs else cur # split_ws [] cs)
      else split_ws (cur @ [c]) cs)"

definition split :: "str \<Rightarrow> str list" where
  "split s = split_ws [] s"

text \<open>The decimal text of an integer, as an f-string prints it.\<close>

function str_nat :: "nat \<Rightarrow> str" where
  "str_nat n = (if n < 10 then [48 + n] else str_nat (n div 10) @ [48 + n mod 10])"
  by pat_completeness auto
termination
  by (relation "measure (\<lambda>n. n)") auto

declare str_nat.simps [simp del]

definition str_int :: "int \<Rightarrow> str" where
  "str_int i = (if i < 0 then [45] @ str_nat (nat (- i)) else str_nat (nat i))"

section \<open>Exceptions\<close>

text \<open>
  The exceptions the handlers tell apart (\<open>telegram.error.Forbidden\<close>,
  \<open>telegram.error.BadRequest\<close>, any other \<open>Exception\<close>), each with the text that
  \<open>f"{e}"\<close> prints.
\<close>

datatype exn = Forbidden str | BadRequest str | Error str

fun exn_text :: "exn \<Rightarrow> str" where
  "exn_text (Forbidden t) = t"
| "exn_text (BadRequest t) = t"
| "exn_text (Error t) = t"

section \<open>The world outside the handlers\<close>

text \<open>
  Table \<open>users(id BIGINT PRIMARY KEY, joined BOOLEAN DEFAULT FALSE)\<close> is a list of
  rows in the order the queries return them. Every call that leaves the process (a query
  on the table, a request to the chat platform, a request to the generation API, a
  diagnostic \<open>print\<close>) is recorded in the trace, in the order it is made.
\<close>

datatype button = UrlButton str str | CallbackButton str str

datatype event =
    DbAddUser int
  | DbUpdateJoin int
  | DbIsJoined int
  | DbGetAllUsers
  | GetChatMember str int
  | ChatCompletion str str str
  | ReplyText str "str option" "button list list option" bool
  | EditText str
  | AnswerCallback str bool
  | SendMessage int str "str option"
  | Print str

record world =
  users :: "(int \<times> bool) list"
  trace :: "event list"

text \<open>
  The configuration read from the process environment, and the answers of the two remote
  services: the status the chat platform reports for a channel member (or the exception
  it raises), the content of the generation API's first choice (or the exception it
  raises), and whether the platform accepts a message (\<open>None\<close>) or raises.
\<close>

record env =
  REQUIRED_CHANNEL :: str
  LOG_CHANNEL :: int
  ADMIN_ID :: int
  chat_member :: "str \<Rightarrow> int \<Rightarrow> exn + str"
  completion :: "str \<Rightarrow> str \<Rightarrow> str \<Rightarrow> exn + str"
  telegram :: "event \<Rightarrow> exn option"

text \<open>
  What a handler is given: the user of the update (\<open>update.effective_user\<close>, with its
  \<open>id\<close> and the text of \<open>mention_html()\<close>) and the text of the message; for a callback
  the user who pressed the button. The model covers updates that carry a user and a
  message, queries on the table that the database answers, and generation answers whose
  content is a string; everything the chat platform and the generation API may raise is a
  branch of the handlers.
\<close>

record user =
  id_u :: int
  mention_html :: str

record update =
  effective_user :: user
  message_text :: "str option"

record callback_query =
  from_user :: user

definition emit :: "event \<Rightarrow> world \<Rightarrow> world" where
  "emit ev st = st\<lparr>trace := trace st @ [ev]\<rparr>"

text \<open>A request to the chat platform: recorded, then answered by the platform.\<close>

definition call :: "env \<Rightarrow> event \<Rightarrow> world \<Rightarrow> exn option \<times> world" where
  "call e ev st = (telegram e ev, emit ev st)"

section \<open>Database utils\<close>

definition add_user :: "int \<Rightarrow> world \<Rightarrow> world" where
  "add_user user_id st =
     emit (DbAddUser user_id)
       (st\<lparr>users := (if user_id \<in> fst ` set (users st) then users st
                      else users st @ [(user_id, False)])\<rparr>)"

definition update_join :: "int \<Rightarrow> world \<Rightarrow> world" where
  "update_join user_id st =
     emit (DbUpdateJoin user_id)
       (st\<lparr>users := map (\<lambda>(i, j). if i = user_id then (i, True) else (i, j)) (users st)\<rparr>)"

definition is_joined :: "int \<Rightarrow> world \<Rightarrow> bool \<times> world" where
  "is_joined user_id st =
     ((case map_of (users st) user_id of Some j \<Rightarrow> j | None \<Rightarrow> False),
      emit (DbIsJoined user_id) st)"

definition get_all_users :: "world \<Rightarrow> int list \<times> world" where
  "get_all_users st = (map fst (users st), emit DbGetAllUsers st)"

section \<open>Config and fixed texts\<close>

definition EXPLAIN_MODEL :: str where
  "EXPLAIN_MODEL = lit ''gpt-3.5-turbo''"

definition PROMPT_MODEL :: str where
  "PROMPT_MODEL = lit ''gpt-3.5-turbo''"

text \<open>U+26A0 U+FE0F, the warning sign that opens every error text.\<close>

definition WARN :: str where
  "WARN = [9888, 65039]"

definition MARKDOWN :: "str option" where
  "MARKDOWN = Some (lit ''Markdown'')"

definition HTML :: "str option" where
  "HTML = Some (lit ''HTML'')"

section \<open>Prompt builders\<close>

definition build_explain_prompt :: "str \<Rightarrow> str" where
  "build_explain_prompt user_text =
     nl @ lit ''You are an expert explainer. Explain the following text at three levels:'' @ nl
     @ nl
     @ [128313] @ lit '' Basic '' @ [8212] @ lit '' like for a 5-year-old  '' @ nl
     @ [128312] @ lit '' Intermediate '' @ [8212] @ lit '' like for a college student  '' @ nl
     @ [128310] @ lit '' Advanced '' @ [8212] @ lit '' for professionals  '' @ nl
     @ nl
     @ lit ''Format:'' @ nl
     @ nl
     @ [128313] @ lit '' *Basic explanation:*  '' @ nl
     @ lit ''<text>'' @ nl
     @ nl
     @ [128312] @ lit '' *Intermediate explanation:*  '' @ nl
     @ lit ''<text>'' @ nl
     @ nl
     @ [128310] @ lit '' *Advanced explanation:*  '' @ nl
     @ lit ''<text>'' @ nl
     @ nl
     @ lit ''Text:'' @ nl
     @ [34, 34, 34] @ user_text @ [34, 34, 34]"

definition build_prompt_refiner :: "str \<Rightarrow> str" where
  "build_prompt_refiner user_text =
     nl @ lit ''You are a world-class prompt engineer.'' @ nl
     @ nl
     @ lit ''Task: Take the raw prompt and transform it into a highly detailed, structured, and optimized prompt.'' @ nl
     @ nl
     @ lit ''Follow the rules:'' @ nl
     @ lit ''1. Clarify the intent behind the original prompt.'' @ nl
     @ lit ''2. Expand with context, constraints, and details.'' @ nl
     @ lit ''3. Assign a clear role (expert teacher, senior developer, designer, etc.).'' @ nl
     @ lit ''4. Give step-by-step instructions with measurable outcomes.'' @ nl
     @ lit ''5. Make it professional, unambiguous, and future-proof.'' @ nl
     @ nl
     @ WARN @ lit '' Output format (strictly follow, no extra text, no duplication):'' @ nl
     @ nl
     @ lit ''- **Original Prompt**: '' @ user_text @ nl
     @ nl
     @ lit ''- **Refined Prompt**: <ultra high-level upgraded version>'' @ nl"

section \<open>Utils\<close>

definition log_msg :: "user option \<Rightarrow> str \<Rightarrow> str \<Rightarrow> str \<Rightarrow> str" where
  "log_msg usr command user_text answer =
     [128100] @ lit '' User: ''
       @ (case usr of Some u \<Rightarrow> mention_html u | None \<Rightarrow> lit ''Unknown'') @ nl
     @ [127380] @ lit '' ID: `''
       @ (case usr of Some u \<Rightarrow> str_int (id_u u) | None \<Rightarrow> lit ''N/A'') @ lit ''`'' @ nl
     @ [128172] @ lit '' Command: `'' @ command @ lit ''`'' @ nl
     @ [128229] @ lit '' Input:'' @ nl @ user_text @ nl @ nl
     @ [128228] @ lit '' Output:'' @ nl @ take 3500 answer"

definition send_log :: "env \<Rightarrow> user option \<Rightarrow> str \<Rightarrow> str \<Rightarrow> str \<Rightarrow> world \<Rightarrow> world" where
  "send_log e usr command user_text answer st =
     (if LOG_CHANNEL e = 0 then st
      else
        (case call e (SendMessage (LOG_CHANNEL e) (log_msg usr command user_text answer) HTML) st of
           (None, st1) \<Rightarrow> st1
         | (Some ex, st1) \<Rightarrow>
             emit (Print (WARN @ lit '' Log send error: '' @ exn_text ex)) st1))"

definition is_member :: "env \<Rightarrow> int \<Rightarrow> world \<Rightarrow> bool \<times> world" where
  "is_member e user_id st =
     (let st1 = emit (GetChatMember (REQUIRED_CHANNEL e) user_id) st in
      case chat_member e (REQUIRED_CHANNEL e) user_id of
        Inr status \<Rightarrow>
          (status \<in> set [lit ''member'', lit ''administrator'', lit ''creator''], st1)
      | Inl (Forbidden t) \<Rightarrow>
          (False, emit (Print (WARN @ lit '' Bot is not admin in REQUIRED_CHANNEL!'')) st1)
      | Inl (BadRequest t) \<Rightarrow>
          (False, emit (Print (WARN @ lit '' Membership check bad request: '' @ t)) st1)
      | Inl (Error t) \<Rightarrow>
          (False, emit (Print (WARN @ lit '' Membership check error: '' @ t)) st1))"

section \<open>Handlers\<close>

text \<open>
  A handler returns \<open>Inr ()\<close> when it ends normally and \<open>Inl ex\<close> when an
  exception leaves it. \<open>finish\<close> is a request to the chat platform in tail position:
  what the platform raises leaves the handler.
\<close>

definition finish :: "env \<Rightarrow> event \<Rightarrow> world \<Rightarrow> (exn + unit) \<times> world" where
  "finish e ev st =
     (case call e ev st of (None, st1) \<Rightarrow> (Inr (), st1) | (Some ex, st1) \<Rightarrow> (Inl ex, st1))"

definition WELCOME_BACK :: str where
  "WELCOME_BACK =
     [128075] @ lit '' *Welcome back!*'' @ nl @ nl
     @ lit ''I can break down complex text or help you craft better prompts.'' @ nl @ nl
     @ [128204] @ lit '' *Commands:*'' @ nl
     @ [8226] @ lit '' `/explain <text>` '' @ [8594] @ lit '' Multi-level explanations.'' @ nl
     @ [8226] @ lit '' `/prompt <idea>` '' @ [8594] @ lit '' Get polished prompt.'' @ nl
     @ nl @ lit ''Made with '' @ [10084, 65039] @ lit '' by [Swayam](https://t.me/regnis)''"

definition join_keyboard :: "env \<Rightarrow> button list list" where
  "join_keyboard e =
     [[UrlButton ([128073] @ lit '' Join Channel'')
         (lit ''https://t.me/'' @ strip_at (REQUIRED_CHANNEL e))],
      [CallbackButton ([9989] @ lit '' I'' @ [39] @ lit ''ve Joined'') (lit ''check_join'')]]"

definition join_ui :: "env \<Rightarrow> event" where
  "join_ui e =
     ReplyText (WARN @ lit '' Please join our channel to use the bot.'') None
       (Some (join_keyboard e)) False"

definition start :: "env \<Rightarrow> update \<Rightarrow> world \<Rightarrow> (exn + unit) \<times> world" where
  "start e upd st =
     (let user_id = id_u (effective_user upd);
          st1 = add_user user_id st;
          (joined, st2) = is_joined user_id st1
      in if joined then finish e (ReplyText WELCOME_BACK MARKDOWN None True) st2
         else finish e (join_ui e) st2)"

definition check_join :: "env \<Rightarrow> callback_query \<Rightarrow> world \<Rightarrow> (exn + unit) \<times> world" where
  "check_join e query st =
     (let user_id = id_u (from_user query);
          (member, st1) = is_member e user_id st
      in if member then
           finish e (EditText ([9989] @ lit '' Thanks for joining! Type /start again '' @ [127881]))
             (update_join user_id st1)
         else
           finish e (AnswerCallback ([10060] @ lit '' You haven'' @ [39] @ lit ''t joined yet!'') True) st1)"

text \<open>
  The \<open>except Exception as e\<close> block that \<open>explain\<close> and \<open>prompt_refiner\<close> share
  word for word, up to the command name: the error text is sent as a plain reply, then
  logged. What the reply itself raises leaves the handler.
\<close>

definition on_exception ::
  "env \<Rightarrow> user \<Rightarrow> str \<Rightarrow> str \<Rightarrow> exn \<Rightarrow> world \<Rightarrow> (exn + unit) \<times> world" where
  "on_exception e usr command user_text ex st =
     (let err = WARN @ lit '' Error: '' @ exn_text ex in
      case call e (ReplyText err None None False) st of
        (Some ex', st1) \<Rightarrow> (Inl ex', st1)
      | (None, st1) \<Rightarrow> (Inr (), send_log e (Some usr) command user_text err st1))"

text \<open>
  \<open>getattr(update.message, "text", "") or ""\<close>, and the text \<open>explain\<close> works on:
  the arguments joined when there are any, the message text otherwise.
\<close>

definition text_of :: "update \<Rightarrow> str" where
  "text_of upd = (case message_text upd of Some t \<Rightarrow> t | None \<Rightarrow> [])"

definition user_text_of :: "update \<Rightarrow> str list option \<Rightarrow> str" where
  "user_text_of upd args =
     (case args of Some (a # as) \<Rightarrow> join_space (a # as) | _ \<Rightarrow> text_of upd)"

definition explain ::
  "env \<Rightarrow> update \<Rightarrow> str list option \<Rightarrow> world \<Rightarrow> (exn + unit) \<times> world" where
  "explain e upd args st =
     (let user_id = id_u (effective_user upd);
          (joined, st1) = is_joined user_id st
      in if \<not> joined then finish e (join_ui e) st1
         else
           let usr = effective_user upd;
               user_text = user_text_of upd args
           in if user_text = [] \<or> startswith user_text (lit ''/explain'') then
                finish e (ReplyText ([10071] @ lit '' Usage: `/explain your_text_here`'')
                            MARKDOWN None False) st1
              else
                let prompt = build_explain_prompt user_text;
                    system = lit ''You explain at multiple levels clearly.'';
                    st2 = emit (ChatCompletion EXPLAIN_MODEL system prompt) st1;
                    (r, st3) =
                      (case completion e EXPLAIN_MODEL system prompt of
                         Inl ex \<Rightarrow> (Inl ex, st2)
                       | Inr answer \<Rightarrow>
                           (case call e (ReplyText answer MARKDOWN None False) st2 of
                              (Some ex, st') \<Rightarrow> (Inl ex, st')
                            | (None, st') \<Rightarrow>
                                (Inr (), send_log e (Some usr) (lit ''explain'') user_text answer st')))
                in case r of
                     Inr u \<Rightarrow> (Inr (), st3)
                   | Inl ex \<Rightarrow> on_exception e usr (lit ''explain'') user_text ex st3)"

definition prompt_refiner ::
  "env \<Rightarrow> update \<Rightarrow> str list \<Rightarrow> world \<Rightarrow> (exn + unit) \<times> world" where
  "prompt_refiner e upd args st =
     (let user_id = id_u (effective_user upd);
          (joined, st1) = is_joined user_id st
      in if \<not> joined then finish e (join_ui e) st1
         else
           let usr = effective_user upd;
               user_text = join_space args
           in if user_text = [] then
                finish e (ReplyText ([10071] @ lit '' Usage: `/prompt your_idea_here`'')
                            MARKDOWN None False) st1
              else
                let prompt = build_prompt_refiner user_text;
                    system = lit ''You are a world-class prompt engineer. Always return in the strict format.'';
                    st2 = emit (ChatCompletion PROMPT_MODEL system prompt) st1;
                    (r, st3) =
                      (case completion e PROMPT_MODEL system prompt of
                         Inl ex \<Rightarrow> (Inl ex, st2)
                       | Inr content \<Rightarrow>
                           (let refined = strip content in
                            case call e (ReplyText refined MARKDOWN None False) st2 of
                              (Some ex, st') \<Rightarrow> (Inl ex, st')
                            | (None, st') \<Rightarrow>
                                (Inr (), send_log e (Some usr) (lit ''prompt'') user_text refined st')))
                in case r of
                     Inr u \<Rightarrow> (Inr (), st3)
                   | Inl ex \<Rightarrow> on_exception e usr (lit ''prompt'') user_text ex st3)"

text \<open>The loop of \<open>broadcast\<close>: one \<open>send_message\<close> per identifier, every exception counted.\<close>

fun broadcast_loop ::
  "env \<Rightarrow> str \<Rightarrow> int list \<Rightarrow> nat \<times> nat \<Rightarrow> world \<Rightarrow> (nat \<times> nat) \<times> world" where
  "broadcast_loop e message [] (sent, failed) st = ((sent, failed), st)"
| "broadcast_loop e message (uid # uids) (sent, failed) st =
     (case call e (SendMessage uid message None) st of
        (None, st1) \<Rightarrow> broadcast_loop e message uids (sent + 1, failed) st1
      | (Some ex, st1) \<Rightarrow> broadcast_loop e message uids (sent, failed + 1) st1)"

definition broadcast_report :: "nat \<Rightarrow> nat \<Rightarrow> str" where
  "broadcast_report sent failed =
     [128226] @ lit '' Broadcast complete!'' @ nl
     @ [9989] @ lit '' Sent: '' @ str_nat sent @ nl
     @ WARN @ lit '' Failed: '' @ str_nat failed"

definition broadcast ::
  "env \<Rightarrow> update \<Rightarrow> str list \<Rightarrow> world \<Rightarrow> (exn + unit) \<times> world" where
  "broadcast e upd args st =
     (let user_id = id_u (effective_user upd) in
      if user_id \<noteq> ADMIN_ID e then
        finish e (ReplyText ([10060] @ lit '' You are not authorized.'') None None False) st
      else if args = [] then
        finish e (ReplyText ([10071] @ lit '' Usage: `/broadcast your_message`'')
                    MARKDOWN None False) st
      else
        let message = join_space args;
            (uids, st1) = get_all_users st;
            ((sent, failed), st2) = broadcast_loop e message uids (0, 0) st1
        in finish e (ReplyText (broadcast_report sent failed) None None False) st2)"

section \<open>Dispatch\<close>

text \<open>
  \<open>main\<close> registers \<open>start\<close>, \<open>explain\<close>, \<open>prompt_refiner\<close> and \<open>broadcast\<close> as
  command handlers, \<open>check_join\<close> as the handler of the callback \<open>check_join\<close>, and
  \<open>explain\<close> again as the handler of every text message that is not a command. For a
  command the library sets \<open>context.args\<close> to \<open>message.text.split()[1:]\<close>; for a
  plain text message \<open>context.args\<close> is \<open>None\<close>.
\<close>

definition command_args :: "str \<Rightarrow> str list" where
  "command_args text = tl (split text)"

datatype request =
    Start update
  | Explain update
  | Text update
  | Prompt update
  | Broadcast update
  | CheckJoin callback_query

fun handle :: "env \<Rightarrow> request \<Rightarrow> world \<Rightarrow> (exn + unit) \<times> world" where
  "handle e (Start upd) st = start e upd st"
| "handle e (Explain upd) st = explain e upd (Some (command_args (text_of upd))) st"
| "handle e (Text upd) st = explain e upd None st"
| "handle e (Prompt upd) st = prompt_refiner e upd (command_args (text_of upd)) st"
| "handle e (Broadcast upd) st = broadcast e upd (command_args (text_of upd)) st"
| "handle e (CheckJoin query) st = check_join e query st"

section \<open>Derived notions\<close>

text \<open>The events a handler adds to the trace.\<close>

definition new_events :: "world \<Rightarrow> world \<Rightarrow> event list" where
  "new_events st st' = drop (length (trace st)) (trace st')"



fun is_send_message :: "event \<Rightarrow> bool" where
  "is_send_message (SendMessage c t p) = True"
| "is_send_message ev = False"

text \<open>A reply to the user: \<open>reply_text\<close>, \<open>edit_text\<close> or \<open>answer\<close>.\<close>

fun is_reply :: "event \<Rightarrow> bool" where
  "is_reply (ReplyText t p k d) = True"
| "is_reply (EditText t) = True"
| "is_reply (AnswerCallback t a) = True"
| "is_reply ev = False"

text \<open>The events of one \<open>send_log\<close>.\<close>

definition log_events :: "env \<Rightarrow> user option \<Rightarrow> str \<Rightarrow> str \<Rightarrow> str \<Rightarrow> event list" where
  "log_events e usr command user_text answer =
     (if LOG_CHANNEL e = 0 then []
      else SendMessage (LOG_CHANNEL e) (log_msg usr command user_text answer) HTML #
        (case telegram e (SendMessage (LOG_CHANNEL e) (log_msg usr command user_text answer) HTML) of
           None \<Rightarrow> []
         | Some ex \<Rightarrow> [Print (WARN @ lit '' Log send error: '' @ exn_text ex)]))"

text \<open>
  The events of the \<open>except\<close> block, and the events of the \<open>try\<close> statement of
  \<open>explain\<close> and \<open>prompt_refiner\<close>: the generation call, then the reply and the log,
  or the \<open>except\<close> block when the call or the reply raises. \<open>post\<close> is what the handler
  does to the content before it replies (\<open>strip\<close> in \<open>prompt_refiner\<close>).
\<close>

definition exception_events :: "env \<Rightarrow> user \<Rightarrow> str \<Rightarrow> str \<Rightarrow> exn \<Rightarrow> event list" where
  "exception_events e usr command user_text ex =
     ReplyText (WARN @ lit '' Error: '' @ exn_text ex) None None False #
       (case telegram e (ReplyText (WARN @ lit '' Error: '' @ exn_text ex) None None False) of
          None \<Rightarrow> log_events e (Some usr) command user_text (WARN @ lit '' Error: '' @ exn_text ex)
        | Some ex' \<Rightarrow> [])"

definition pipeline_events ::
  "env \<Rightarrow> user \<Rightarrow> str \<Rightarrow> str \<Rightarrow> str \<Rightarrow> str \<Rightarrow> str \<Rightarrow> (str \<Rightarrow> str) \<Rightarrow> event list" where
  "pipeline_events e usr command user_text model system prompt post =
     ChatCompletion model system prompt #
       (case completion e model system prompt of
          Inl ex \<Rightarrow> exception_events e usr command user_text ex
        | Inr content \<Rightarrow>
            ReplyText (post content) MARKDOWN None False #
              (case telegram e (ReplyText (post content) MARKDOWN None False) of
                 None \<Rightarrow> log_events e (Some usr) command user_text (post content)
               | Some ex \<Rightarrow> exception_events e usr command user_text ex))"

text \<open>
  The operations of the User Store, and runs of them; runs of requests, each under the
  answers the remote services give at that time.
\<close>

datatype store_op = Register int | MarkVerified int | GetFlag int | ListAll

fun store_step :: "store_op \<Rightarrow> world \<Rightarrow> world" where
  "store_step (Register u) st = add_user u st"
| "store_step (MarkVerified u) st = update_join u st"
| "store_step (GetFlag u) st = snd (is_joined u st)"
| "store_step ListAll st = snd (get_all_users st)"

fun store_run :: "store_op list \<Rightarrow> world \<Rightarrow> world" where
  "store_run [] st = st"
| "store_run (x # xs) st = store_run xs (store_step x st)"

fun run :: "(env \<times> request) list \<Rightarrow> world \<Rightarrow> world" where
  "run [] st = st"
| "run ((e, r) # rs) st = run rs (snd (handle e r st))"

text \<open>
  \<open>grows rows rows'\<close>: every flag that is true in \<open>rows\<close> is true in \<open>rows'\<close>, and
  every identifier of \<open>rows\<close> is an identifier of \<open>rows'\<close>.
\<close>

definition grows :: "(int \<times> bool) list \<Rightarrow> (int \<times> bool) list \<Rightarrow> bool" where
  "grows rows rows' \<longleftrightarrow>
     (\<forall>u. map_of rows u = Some True \<longrightarrow> map_of rows' u = Some True)
     \<and> fst ` set rows \<subseteq> fst ` set rows'"

section \<open>Sample inputs\<close>

definition env0 :: env where
  "env0 = \<lparr>REQUIRED_CHANNEL = lit ''@chan'', LOG_CHANNEL = 0, ADMIN_ID = 1,
           chat_member = (\<lambda>c u. Inr (lit ''member'')),
           completion = (\<lambda>m s p. Inl (Error (lit ''timeout''))),
           telegram = (\<lambda>ev. None)\<rparr>"


definition user1 :: user where
  "user1 = \<lparr>id_u = 1, mention_html = lit ''admin''\<rparr>"

definition user7 :: user where
  "user7 = \<lparr>id_u = 7, mention_html = lit ''u7''\<rparr>"


definition upd7 :: "str \<Rightarrow> update" where
  "upd7 t = \<lparr>effective_user = user7, message_text = Some t\<rparr>"

text \<open>A configured log channel.\<close>

definition env_log :: env where
  "env_log = env0\<lparr>LOG_CHANNEL := - 100\<rparr>"


definition w0 :: world where
  "w0 = \<lparr>users = [], trace = []\<rparr>"

definition w3 :: world where
  "w3 = \<lparr>users = [(7, True), (8, False), (9, False)], trace = []\<rparr>"

section \<open>Basic facts\<close>

lemma users_emit [simp]: "users (emit ev st) = users st"
  by (simp add: emit_def)

lemma trace_emit [simp]: "trace (emit ev st) = trace st @ [ev]"
  by (simp add: emit_def)

lemma snd_finish: "snd (finish e ev st) = emit ev st"
  by (simp add: finish_def call_def split: option.splits)

lemma fst_finish:
  "fst (finish e ev st) = (case telegram e ev of None \<Rightarrow> Inr () | Some ex \<Rightarrow> Inl ex)"
  by (simp add: finish_def call_def split: option.splits)

lemma send_log_eq:
  "send_log e usr c ut a st = st\<lparr>trace := trace st @ log_events e usr c ut a\<rparr>"
  by (simp add: send_log_def log_events_def call_def emit_def split: option.splits)

lemma on_exception_eq:
  "snd (on_exception e usr c ut ex st) =
     st\<lparr>trace := trace st @ ReplyText (WARN @ lit '' Error: '' @ exn_text ex) None None False #
        (case telegram e (ReplyText (WARN @ lit '' Error: '' @ exn_text ex) None None False) of
           None \<Rightarrow> log_events e (Some usr) c ut (WARN @ lit '' Error: '' @ exn_text ex)
         | Some ex' \<Rightarrow> [])\<rparr>"
  by (simp add: on_exception_def Let_def call_def send_log_eq emit_def split: option.splits)

lemma users_on_exception [simp]: "users (snd (on_exception e usr c ut ex st)) = users st"
  by (simp add: on_exception_eq)

lemma users_send_log [simp]: "users (send_log e usr c ut a st) = users st"
  by (simp add: send_log_eq)

lemma users_is_member [simp]: "users (snd (is_member e u st)) = users st"
  by (simp add: is_member_def Let_def split: sum.splits exn.splits)

lemma users_explain: "users (snd (explain e upd args st)) = users st"
  by (simp add: explain_def Let_def is_joined_def call_def snd_finish
      split: sum.splits option.splits prod.splits)

lemma users_prompt_refiner: "users (snd (prompt_refiner e upd args st)) = users st"
  by (simp add: prompt_refiner_def Let_def is_joined_def call_def snd_finish
      split: sum.splits option.splits prod.splits)

lemma broadcast_loop_eq:
  "broadcast_loop e m us (s, f) st =
     ((s + length (filter (\<lambda>u. telegram e (SendMessage u m None) = None) us),
       f + length (filter (\<lambda>u. telegram e (SendMessage u m None) \<noteq> None) us)),
      st\<lparr>trace := trace st @ map (\<lambda>u. SendMessage u m None) us\<rparr>)"
proof (induction us arbitrary: s f st)
  case Nil
  show ?case by simp
next
  case (Cons u us)
  show ?case
  proof (cases "telegram e (SendMessage u m None)")
    case None
    then show ?thesis using Cons [of "s + 1" f "emit (SendMessage u m None) st"]
      by (simp add: call_def emit_def)
  next
    case (Some ex)
    then show ?thesis using Cons [of s "f + 1" "emit (SendMessage u m None) st"]
      by (simp add: call_def emit_def)
  qed
qed

lemma users_broadcast: "users (snd (broadcast e upd args st)) = users st"
  by (simp add: broadcast_def Let_def get_all_users_def broadcast_loop_eq snd_finish)


section \<open>Broadcast\<close>



text \<open>
  Claim C8. Whoever is not the configured administrator gets the reply "You are not
  authorized." and nothing else happens: the identifiers are not fetched, no message is
  sent to anyone, the User Store is as before.
\<close>

theorem broadcast_unauthorized:
  assumes "id_u (effective_user upd) \<noteq> ADMIN_ID e"
  shows "snd (broadcast e upd args st) =
           st\<lparr>trace := trace st @
                [ReplyText ([10060] @ lit '' You are not authorized.'') None None False]\<rparr>
       \<and> users (snd (broadcast e upd args st)) = users st
       \<and> filter is_send_message (new_events st (snd (broadcast e upd args st))) = []
       \<and> DbGetAllUsers \<notin> set (new_events st (snd (broadcast e upd args st)))"
  using assms by (simp add: broadcast_def snd_finish emit_def new_events_def)

theorem broadcast_unauthorized_witness:
  "id_u (effective_user (upd7 (lit ''/broadcast hi''))) \<noteq> ADMIN_ID env0
   \<and> snd (broadcast env0 (upd7 (lit ''/broadcast hi'')) [lit ''hi''] w3) =
       \<lparr>users = [(7, True), (8, False), (9, False)],
        trace = [ReplyText ([10060] @ lit '' You are not authorized.'') None None False]\<rparr>"
proof -
  have a: "id_u (effective_user (upd7 (lit ''/broadcast hi''))) \<noteq> ADMIN_ID env0"
    by (simp add: upd7_def user7_def env0_def)
  show ?thesis
    using a broadcast_unauthorized [OF a, of "[lit ''hi'']" w3]
    by (simp add: w3_def)
qed


section \<open>The User Store only grows\<close>

lemma grows_refl: "grows rows rows"
  by (simp add: grows_def)

lemma grows_trans: "grows a b \<Longrightarrow> grows b c \<Longrightarrow> grows a c"
  unfolding grows_def by blast

lemma map_of_mark:
  "map_of (map (\<lambda>(i, j). if i = u then (i, True) else (i, j)) rows) k =
     (if k = u then map_option (\<lambda>j. True) (map_of rows u) else map_of rows k)"
  by (induction rows) auto

lemma keys_mark:
  "fst ` (\<lambda>(i, j). if i = u then (i, True) else (i, j)) ` set rows = fst ` set rows"
  by (induction rows) auto

lemma grows_update_join: "grows (users st) (users (update_join u st))"
  by (auto simp add: grows_def update_join_def map_of_mark keys_mark)

lemma grows_add_user: "grows (users st) (users (add_user u st))"
  by (auto simp add: grows_def add_user_def map_add_def split: option.splits)

lemma add_user_existing: "u \<in> fst ` set (users st) \<Longrightarrow> users (add_user u st) = users st"
  by (simp add: add_user_def)

lemma users_start: "users (snd (start e upd st)) = users (add_user (id_u (effective_user upd)) st)"
  by (simp add: start_def Let_def is_joined_def snd_finish split: prod.splits)

lemma users_check_join:
  "users (snd (check_join e q st)) =
     (if fst (is_member e (id_u (from_user q)) st) then users (update_join (id_u (from_user q)) st)
      else users st)"
  by (cases "is_member e (id_u (from_user q)) st")
     (use users_is_member [of e "id_u (from_user q)" st] in
       \<open>simp add: check_join_def Let_def update_join_def snd_finish\<close>)

lemma grows_handle: "grows (users st) (users (snd (handle e r st)))"
proof (cases r)
  case (Start upd)
  then show ?thesis by (simp add: users_start grows_add_user)
next
  case (CheckJoin q)
  then show ?thesis by (simp add: users_check_join grows_update_join grows_refl)
qed (simp_all add: users_explain users_prompt_refiner users_broadcast grows_refl)

lemma grows_store_step: "grows (users st) (users (store_step x st))"
  by (cases x) (simp_all add: grows_add_user grows_update_join grows_refl
      get_all_users_def is_joined_def)

lemma grows_run: "grows (users st) (users (run rs st))"
proof (induction rs arbitrary: st)
  case Nil
  show ?case by (simp add: grows_refl)
next
  case (Cons a rs)
  obtain e r where a: "a = (e, r)" by (cases a)
  show ?case using grows_trans [OF grows_handle [of st e r] Cons [of "snd (handle e r st)"]]
    by (simp add: a)
qed

lemma grows_store_run: "grows (users st) (users (store_run xs st))"
proof (induction xs arbitrary: st)
  case Nil
  show ?case by (simp add: grows_refl)
next
  case (Cons x xs)
  show ?case using grows_trans [OF grows_store_step [of st x] Cons [of "store_step x st"]]
    by simp
qed

text \<open>
  Claim C6. Along every run of User Store operations (register, mark verified, read the
  flag, list all) and along every run of requests, a flag that is true stays true and an
  identifier that has a row keeps one; registering an identifier that has a row leaves the
  table as it is.
\<close>

theorem store_monotonic:
  "(map_of (users st) u = Some True \<longrightarrow>
       map_of (users (store_run xs st)) u = Some True \<and> map_of (users (run rs st)) u = Some True)
   \<and> (u \<in> fst ` set (users st) \<longrightarrow>
       u \<in> fst ` set (users (store_run xs st)) \<and> u \<in> fst ` set (users (run rs st))
       \<and> users (add_user u st) = users st)"
  using grows_store_run [of st xs] grows_run [of st rs] add_user_existing [of u st]
  by (auto simp add: grows_def)

theorem store_monotonic_witness:
  "map_of (users w3) 7 = Some True \<and> 7 \<in> fst ` set (users w3)
   \<and> map_of (users (store_run [Register 7, GetFlag 7, MarkVerified 8, ListAll] w3)) 7 = Some True
   \<and> map_of (users (run [(env0, Start (upd7 (lit ''/start''))),
                           (env0, CheckJoin \<lparr>from_user = user1\<rparr>)] w3)) 7 = Some True
   \<and> users (add_user 7 w3) = users w3"
proof -
  have a: "map_of (users w3) 7 = Some True" by (simp add: w3_def)
  have b: "7 \<in> fst ` set (users w3)" by (simp add: w3_def)
  show ?thesis
    using a b store_monotonic [of w3 7 "[Register 7, GetFlag 7, MarkVerified 8, ListAll]"
        "[(env0, Start (upd7 (lit ''/start''))), (env0, CheckJoin \<lparr>from_user = user1\<rparr>)]"]
    by simp
qed

section \<open>Usage errors of /prompt\<close>

lemma split_ws_spaces:
  "\<forall>c\<in>set ws. py_isspace c \<Longrightarrow> split_ws cur ws = (if cur = [] then [] else [cur])"
  by (induction ws arbitrary: cur) auto

lemma split_ws_word:
  "\<forall>c\<in>set w. \<not> py_isspace c \<Longrightarrow> split_ws cur (w @ rest) = split_ws (cur @ w) rest"
  by (induction w arbitrary: cur) auto

lemma command_args_blank:
  "\<forall>c\<in>set cmd. \<not> py_isspace c \<Longrightarrow> \<forall>c\<in>set ws. py_isspace c \<Longrightarrow> command_args (cmd @ ws) = []"
  by (simp add: command_args_def split_def split_ws_word split_ws_spaces)

text \<open>
  Claim C7. For a joined user, \<open>/prompt\<close> whose joined arguments are empty replies with
  the usage text and does nothing else: the events are the read of the flag and that reply,
  so there is no generation call and no log message. A command text followed by white
  space only has no arguments, so it ends there too.
\<close>

theorem prompt_usage_error:
  assumes joined: "map_of (users st) (id_u (effective_user upd)) = Some True"
  shows "(join_space args = [] \<longrightarrow>
            snd (prompt_refiner e upd args st) =
              st\<lparr>trace := trace st @
                [DbIsJoined (id_u (effective_user upd)),
                 ReplyText ([10071] @ lit '' Usage: `/prompt your_idea_here`'') MARKDOWN None False]\<rparr>)
       \<and> ((\<forall>c\<in>set cmd. \<not> py_isspace c) \<and> (\<forall>c\<in>set ws. py_isspace c)
            \<and> message_text upd = Some (cmd @ ws) \<longrightarrow>
            snd (handle e (Prompt upd) st) =
              st\<lparr>trace := trace st @
                [DbIsJoined (id_u (effective_user upd)),
                 ReplyText ([10071] @ lit '' Usage: `/prompt your_idea_here`'') MARKDOWN None False]\<rparr>)"
  using joined
  by (auto simp add: prompt_refiner_def is_joined_def text_of_def command_args_blank snd_finish emit_def)

theorem prompt_usage_error_witness:
  "map_of (users w3) (id_u (effective_user (upd7 (lit ''/prompt'' @ [32, 9, 32])))) = Some True
   \<and> list_all py_isspace [32, 9, 32]
   \<and> trace (snd (handle env0 (Prompt (upd7 (lit ''/prompt'' @ [32, 9, 32]))) w3)) =
       [DbIsJoined 7,
        ReplyText ([10071] @ lit '' Usage: `/prompt your_idea_here`'') MARKDOWN None False]"
proof -
  have a: "map_of (users w3) (id_u (effective_user (upd7 (lit ''/prompt'' @ [32, 9, 32])))) = Some True"
    by (simp add: w3_def upd7_def user7_def)
  have b: "\<forall>c\<in>set (lit ''/prompt''). \<not> py_isspace c"
    by (simp add: lit_def py_isspace_def)
  have c: "\<forall>c\<in>set [32, 9, 32]. py_isspace c"
    by (simp add: py_isspace_def)
  have d: "message_text (upd7 (lit ''/prompt'' @ [32, 9, 32])) = Some (lit ''/prompt'' @ [32, 9, 32])"
    by (simp add: upd7_def)
  show ?thesis
    using a b c d prompt_usage_error [OF a, of "[]" env0 "lit ''/prompt''" "[32, 9, 32]"]
    by (simp add: w3_def upd7_def user7_def)
qed

lemma on_exception_events:
  "snd (on_exception e usr c ut ex st) =
     st\<lparr>trace := trace st @ exception_events e usr c ut ex\<rparr>"
  by (simp add: on_exception_eq exception_events_def)

lemma explain_denied:
  "map_of (users st) (id_u (effective_user upd)) \<noteq> Some True \<Longrightarrow>
   snd (explain e upd args st) =
     st\<lparr>trace := trace st @ [DbIsJoined (id_u (effective_user upd)), join_ui e]\<rparr>"
  by (cases "map_of (users st) (id_u (effective_user upd))")
     (simp_all add: explain_def is_joined_def snd_finish emit_def)

lemma prompt_refiner_denied:
  "map_of (users st) (id_u (effective_user upd)) \<noteq> Some True \<Longrightarrow>
   snd (prompt_refiner e upd args st) =
     st\<lparr>trace := trace st @ [DbIsJoined (id_u (effective_user upd)), join_ui e]\<rparr>"
  by (cases "map_of (users st) (id_u (effective_user upd))")
     (simp_all add: prompt_refiner_def is_joined_def snd_finish emit_def)

lemma explain_usage:
  assumes "map_of (users st) (id_u (effective_user upd)) = Some True"
    and "user_text_of upd args = [] \<or> startswith (user_text_of upd args) (lit ''/explain'')"
  shows "snd (explain e upd args st) =
     st\<lparr>trace := trace st @ [DbIsJoined (id_u (effective_user upd)),
        ReplyText ([10071] @ lit '' Usage: `/explain your_text_here`'') MARKDOWN None False]\<rparr>"
  using assms by (simp add: explain_def is_joined_def Let_def snd_finish emit_def)

lemma explain_pipeline:
  assumes "map_of (users st) (id_u (effective_user upd)) = Some True"
    and "user_text_of upd args \<noteq> []"
    and "\<not> startswith (user_text_of upd args) (lit ''/explain'')"
  shows "snd (explain e upd args st) =
     st\<lparr>trace := trace st @ DbIsJoined (id_u (effective_user upd)) #
        pipeline_events e (effective_user upd) (lit ''explain'') (user_text_of upd args)
          EXPLAIN_MODEL (lit ''You explain at multiple levels clearly.'')
          (build_explain_prompt (user_text_of upd args)) (\<lambda>content. content)\<rparr>"
  using assms
  by (simp add: explain_def is_joined_def Let_def call_def on_exception_events send_log_eq
      pipeline_events_def emit_def split: sum.splits option.splits)

lemma prompt_refiner_pipeline:
  assumes "map_of (users st) (id_u (effective_user upd)) = Some True"
    and "join_space args \<noteq> []"
  shows "snd (prompt_refiner e upd args st) =
     st\<lparr>trace := trace st @ DbIsJoined (id_u (effective_user upd)) #
        pipeline_events e (effective_user upd) (lit ''prompt'') (join_space args)
          PROMPT_MODEL (lit ''You are a world-class prompt engineer. Always return in the strict format.'')
          (build_prompt_refiner (join_space args)) strip\<rparr>"
  using assms
  by (simp add: prompt_refiner_def is_joined_def Let_def call_def on_exception_events send_log_eq
      pipeline_events_def emit_def split: sum.splits option.splits)


lemma prompt_refiner_usage:
  assumes "map_of (users st) (id_u (effective_user upd)) = Some True"
    and "join_space args = []"
  shows "snd (prompt_refiner e upd args st) =
     st\<lparr>trace := trace st @ [DbIsJoined (id_u (effective_user upd)),
        ReplyText ([10071] @ lit '' Usage: `/prompt your_idea_here`'') MARKDOWN None False]\<rparr>"
  using assms by (simp add: prompt_refiner_def is_joined_def Let_def snd_finish emit_def)

lemma new_events_append [simp]: "new_events st (st\<lparr>trace := trace st @ evs\<rparr>) = evs"
  by (simp add: new_events_def)







section \<open>Registration\<close>

text \<open>
  Claim C1 fails as stated: a first plain text message of user 7 on an empty table is
  answered with the join keyboard and leaves the table empty.
\<close>

theorem first_contact_leaves_no_record:
  "snd (handle env0 (Text (upd7 (lit ''hello''))) w0) =
     \<lparr>users = [], trace = [DbIsJoined 7, join_ui env0]\<rparr>"
  by (simp add: explain_def is_joined_def snd_finish emit_def w0_def upd7_def user7_def)

lemma start_trace:
  "\<exists>r. trace (snd (start e upd st)) =
     trace st @ [DbAddUser (id_u (effective_user upd)), DbIsJoined (id_u (effective_user upd)), r]"
  by (simp add: start_def Let_def is_joined_def add_user_def snd_finish split: prod.splits)

text \<open>
  Claim C1, amended. \<open>start\<close> first inserts the row if there is none (\<open>joined\<close> false, an
  existing row untouched), then reads the flag, so a row exists after \<open>/start\<close>.
  \<open>explain\<close> and \<open>prompt_refiner\<close> only read: they leave the table as it is, and a user
  with no row is read as not joined and gets the join keyboard.
\<close>

theorem start_registers_commands_only_read:
  "(\<exists>r. trace (snd (start e upd st)) =
       trace st @ [DbAddUser (id_u (effective_user upd)), DbIsJoined (id_u (effective_user upd)), r])
   \<and> id_u (effective_user upd) \<in> fst ` set (users (snd (start e upd st)))
   \<and> (id_u (effective_user upd) \<notin> fst ` set (users st) \<longrightarrow>
        users (snd (start e upd st)) = users st @ [(id_u (effective_user upd), False)])
   \<and> (id_u (effective_user upd) \<in> fst ` set (users st) \<longrightarrow>
        users (snd (start e upd st)) = users st)
   \<and> users (snd (explain e upd args st)) = users st
   \<and> users (snd (prompt_refiner e upd args' st)) = users st
   \<and> (id_u (effective_user upd) \<notin> fst ` set (users st) \<longrightarrow>
        new_events st (snd (explain e upd args st)) =
          [DbIsJoined (id_u (effective_user upd)), join_ui e]
      \<and> new_events st (snd (prompt_refiner e upd args' st)) =
          [DbIsJoined (id_u (effective_user upd)), join_ui e])"
proof -
  have absent: "map_of (users st) (id_u (effective_user upd)) \<noteq> Some True"
    if "id_u (effective_user upd) \<notin> fst ` set (users st)"
    using that by (simp add: map_of_eq_None_iff [symmetric])
  show ?thesis
    using start_trace [of e upd st] explain_denied [OF absent, of e args]
      prompt_refiner_denied [OF absent, of e args']
    by (auto simp add: users_start users_explain users_prompt_refiner add_user_def)
qed

theorem start_registers_commands_only_read_witness:
  "id_u (effective_user (upd7 (lit ''/start''))) \<notin> fst ` set (users w0)
   \<and> users (snd (start env0 (upd7 (lit ''/start'')) w0)) = [(7, False)]
   \<and> users (snd (explain env0 (upd7 (lit ''/start'')) None w0)) = []
   \<and> new_events w0 (snd (explain env0 (upd7 (lit ''/start'')) None w0)) = [DbIsJoined 7, join_ui env0]"
proof -
  have a: "id_u (effective_user (upd7 (lit ''/start''))) \<notin> fst ` set (users w0)"
    by (simp add: w0_def)
  show ?thesis
    using a start_registers_commands_only_read [of env0 "upd7 (lit ''/start'')" w0 None "[]"]
    by (simp add: w0_def upd7_def user7_def)
qed

section \<open>The recheck action\<close>

lemma fst_is_member: "fst (is_member e u st) = fst (is_member e u st')"
  by (simp add: is_member_def Let_def split: sum.splits exn.splits)



text \<open>
  Claim C2 at a user with no row. User 7 sends a plain text message first, presses
  "I've Joined" while being a member of the channel, and sends the text again:
  \<open>update_join\<close> updates no row, the thanks message is shown all the same, and the second
  message is answered with the join keyboard again.
\<close>

theorem check_join_absent_record:
  "run [(env0, Text (upd7 (lit ''hello''))), (env0, CheckJoin \<lparr>from_user = user7\<rparr>),
        (env0, Text (upd7 (lit ''hello'')))] w0 =
     \<lparr>users = [],
      trace = [DbIsJoined 7, join_ui env0,
               GetChatMember (lit ''@chan'') 7, DbUpdateJoin 7,
               EditText ([9989] @ lit '' Thanks for joining! Type /start again '' @ [127881]),
               DbIsJoined 7, join_ui env0]\<rparr>"
  by (simp add: explain_def check_join_def is_member_def is_joined_def update_join_def
      snd_finish emit_def w0_def upd7_def user7_def env0_def)






section \<open>The audit log\<close>

lemma log_msg_shape:
  "\<exists>head. \<forall>ut a. log_msg usr c ut a = head @ ut @ nl @ nl @ [128228] @ lit '' Output:'' @ nl @ take 3500 a"
  unfolding log_msg_def
  by (rule exI [of _ "[128100] @ lit '' User: ''
       @ (case usr of Some u \<Rightarrow> mention_html u | None \<Rightarrow> lit ''Unknown'') @ nl
     @ [127380] @ lit '' ID: `''
       @ (case usr of Some u \<Rightarrow> str_int (id_u u) | None \<Rightarrow> lit ''N/A'') @ lit ''`'' @ nl
     @ [128172] @ lit '' Command: `'' @ c @ lit ''`'' @ nl
     @ [128229] @ lit '' Input:'' @ nl"]) simp

lemma replies_log_events: "filter is_reply (log_events e usr c ut a) = []"
  by (simp add: log_events_def split: option.splits)

lemma sends_log_events_off: "LOG_CHANNEL e = 0 \<Longrightarrow> log_events e usr c ut a = []"
  by (simp add: log_events_def)

lemma replies_exception_events:
  "filter is_reply (exception_events e usr c ut ex) =
     [ReplyText (WARN @ lit '' Error: '' @ exn_text ex) None None False]"
  by (simp add: exception_events_def replies_log_events split: option.splits)

lemma replies_pipeline_events:
  "filter is_reply (pipeline_events (e\<lparr>LOG_CHANNEL := ch\<rparr>) usr c ut m s p post) =
   filter is_reply (pipeline_events e usr c ut m s p post)"
  by (simp add: pipeline_events_def replies_exception_events replies_log_events
      split: sum.splits option.splits)

lemma sends_pipeline_events_off:
  "LOG_CHANNEL e = 0 \<Longrightarrow> filter is_send_message (pipeline_events e usr c ut m s p post) = []"
  by (simp add: pipeline_events_def exception_events_def sends_log_events_off
      split: sum.splits option.splits)

lemma join_ui_log_channel [simp]: "join_ui (e\<lparr>LOG_CHANNEL := ch\<rparr>) = join_ui e"
  by (simp add: join_ui_def join_keyboard_def)

lemma replies_explain:
  "filter is_reply (new_events st (snd (explain (e\<lparr>LOG_CHANNEL := ch\<rparr>) upd args st))) =
   filter is_reply (new_events st (snd (explain e upd args st)))"
proof (cases "map_of (users st) (id_u (effective_user upd)) = Some True")
  case False
  then show ?thesis by (simp add: explain_denied)
next
  case j: True
  show ?thesis
  proof (cases "user_text_of upd args = [] \<or> startswith (user_text_of upd args) (lit ''/explain'')")
    case True
    show ?thesis by (simp add: explain_usage [OF j True])
  next
    case False
    then have a: "user_text_of upd args \<noteq> []"
      and b: "\<not> startswith (user_text_of upd args) (lit ''/explain'')" by auto
    show ?thesis by (simp add: explain_pipeline [OF j a b] replies_pipeline_events)
  qed
qed

lemma replies_prompt_refiner:
  "filter is_reply (new_events st (snd (prompt_refiner (e\<lparr>LOG_CHANNEL := ch\<rparr>) upd args st))) =
   filter is_reply (new_events st (snd (prompt_refiner e upd args st)))"
proof (cases "map_of (users st) (id_u (effective_user upd)) = Some True")
  case False
  then show ?thesis by (simp add: prompt_refiner_denied)
next
  case j: True
  show ?thesis
  proof (cases "join_space args = []")
    case True
    show ?thesis by (simp add: prompt_refiner_usage [OF j True])
  next
    case False
    show ?thesis by (simp add: prompt_refiner_pipeline [OF j False] replies_pipeline_events)
  qed
qed

lemma sends_explain_off:
  assumes off: "LOG_CHANNEL e = 0"
  shows "filter is_send_message (new_events st (snd (explain e upd args st))) = []"
proof (cases "map_of (users st) (id_u (effective_user upd)) = Some True")
  case False
  then show ?thesis by (simp add: explain_denied join_ui_def)
next
  case j: True
  show ?thesis
  proof (cases "user_text_of upd args = [] \<or> startswith (user_text_of upd args) (lit ''/explain'')")
    case True
    show ?thesis by (simp add: explain_usage [OF j True])
  next
    case False
    then have a: "user_text_of upd args \<noteq> []"
      and b: "\<not> startswith (user_text_of upd args) (lit ''/explain'')" by auto
    show ?thesis by (simp add: explain_pipeline [OF j a b] sends_pipeline_events_off [OF off])
  qed
qed

lemma sends_prompt_refiner_off:
  assumes off: "LOG_CHANNEL e = 0"
  shows "filter is_send_message (new_events st (snd (prompt_refiner e upd args st))) = []"
proof (cases "map_of (users st) (id_u (effective_user upd)) = Some True")
  case False
  then show ?thesis by (simp add: prompt_refiner_denied join_ui_def)
next
  case j: True
  show ?thesis
  proof (cases "join_space args = []")
    case True
    show ?thesis by (simp add: prompt_refiner_usage [OF j True])
  next
    case False
    show ?thesis by (simp add: prompt_refiner_pipeline [OF j False] sends_pipeline_events_off [OF off])
  qed
qed

lemma fst_on_exception:
  "fst (on_exception e usr c ut ex st) =
     (case telegram e (ReplyText (WARN @ lit '' Error: '' @ exn_text ex) None None False) of
        None \<Rightarrow> Inr () | Some ex' \<Rightarrow> Inl ex')"
  by (simp add: on_exception_def Let_def call_def split: option.splits)

lemma fst_explain_log_channel:
  "fst (explain (e\<lparr>LOG_CHANNEL := ch\<rparr>) upd args st) = fst (explain e upd args st)"
  by (simp add: explain_def is_joined_def Let_def call_def fst_finish fst_on_exception
      split: sum.splits option.splits)

lemma fst_prompt_refiner_log_channel:
  "fst (prompt_refiner (e\<lparr>LOG_CHANNEL := ch\<rparr>) upd args st) = fst (prompt_refiner e upd args st)"
  by (simp add: prompt_refiner_def is_joined_def Let_def call_def fst_finish fst_on_exception
      split: sum.splits option.splits)

text \<open>
  Claim C10. With \<open>LOG_CHANNEL = 0\<close>, \<open>send_log\<close> returns the world unchanged, and
  \<open>explain\<close> and \<open>prompt_refiner\<close> send no message to any chat; the replies to the user
  and the way the handler ends are the same as with any other log channel. With
  \<open>LOG_CHANNEL\<close> not 0, \<open>send_log\<close> sends one message to that chat, whose text is a head,
  the whole input, the output label and the first 3500 characters of the output.
\<close>

theorem audit_log_switch:
  "(LOG_CHANNEL e = 0 \<longrightarrow>
       send_log e usr c ut a st = st
     \<and> filter is_send_message (new_events st (snd (explain e upd args st))) = []
     \<and> filter is_send_message (new_events st (snd (prompt_refiner e upd args' st))) = [])
   \<and> filter is_reply (new_events st (snd (explain (e\<lparr>LOG_CHANNEL := 0\<rparr>) upd args st))) =
       filter is_reply (new_events st (snd (explain e upd args st)))
   \<and> filter is_reply (new_events st (snd (prompt_refiner (e\<lparr>LOG_CHANNEL := 0\<rparr>) upd args' st))) =
       filter is_reply (new_events st (snd (prompt_refiner e upd args' st)))
   \<and> fst (explain (e\<lparr>LOG_CHANNEL := 0\<rparr>) upd args st) = fst (explain e upd args st)
   \<and> fst (prompt_refiner (e\<lparr>LOG_CHANNEL := 0\<rparr>) upd args' st) = fst (prompt_refiner e upd args' st)
   \<and> (LOG_CHANNEL e \<noteq> 0 \<longrightarrow>
        new_events st (send_log e usr c ut a st) =
          SendMessage (LOG_CHANNEL e) (log_msg usr c ut a) HTML #
            (case telegram e (SendMessage (LOG_CHANNEL e) (log_msg usr c ut a) HTML) of
               None \<Rightarrow> []
             | Some ex \<Rightarrow> [Print (WARN @ lit '' Log send error: '' @ exn_text ex)]))
   \<and> (\<exists>head. \<forall>ut a. log_msg usr c ut a =
          head @ ut @ nl @ nl @ [128228] @ lit '' Output:'' @ nl @ take 3500 a)"
proof -
  have off: "send_log e usr c ut a st = st" if "LOG_CHANNEL e = 0"
    using that by (simp add: send_log_def)
  have on: "new_events st (send_log e usr c ut a st) =
          SendMessage (LOG_CHANNEL e) (log_msg usr c ut a) HTML #
            (case telegram e (SendMessage (LOG_CHANNEL e) (log_msg usr c ut a) HTML) of
               None \<Rightarrow> []
             | Some ex \<Rightarrow> [Print (WARN @ lit '' Log send error: '' @ exn_text ex)])"
    if "LOG_CHANNEL e \<noteq> 0"
    using that by (simp add: send_log_eq log_events_def)
  show ?thesis
    using off on log_msg_shape [of usr c]
    by (simp add: sends_explain_off sends_prompt_refiner_off replies_explain
        replies_prompt_refiner fst_explain_log_channel fst_prompt_refiner_log_channel)
qed

theorem audit_log_switch_witness:
  "LOG_CHANNEL env0 = 0 \<and> LOG_CHANNEL env_log \<noteq> 0
   \<and> send_log env0 (Some user7) (lit ''explain'') (lit ''hi'') (replicate 4000 65) w3 = w3
   \<and> new_events w3 (send_log env_log (Some user7) (lit ''explain'') (lit ''hi'') (replicate 4000 65) w3)
       = [SendMessage (- 100) (log_msg (Some user7) (lit ''explain'') (lit ''hi'') (replicate 4000 65)) HTML]"
proof -
  have a: "LOG_CHANNEL env0 = 0" by (simp add: env0_def)
  have b: "LOG_CHANNEL env_log \<noteq> 0" by (simp add: env_log_def env0_def)
  have c: "telegram env_log ev = None" for ev by (simp add: env_log_def env0_def)
  show ?thesis
    using a b
      audit_log_switch [of env0 "Some user7" "lit ''explain''" "lit ''hi''" "replicate 4000 65" w3]
      audit_log_switch [of env_log "Some user7" "lit ''explain''" "lit ''hi''" "replicate 4000 65" w3]
    by (simp add: c) (simp add: env_log_def env0_def)
qed

section \<open>Generation errors\<close>

text \<open>
  Claim C4 fails as stated: with \<open>LOG_CHANNEL = 0\<close> a failed generation for \<open>/prompt idea\<close>
  is answered with the error text, and no log message is sent.
\<close>

theorem generation_error_unlogged:
  "snd (prompt_refiner env0 (upd7 (lit ''/prompt idea'')) [lit ''idea''] w3) =
     \<lparr>users = [(7, True), (8, False), (9, False)],
      trace = [DbIsJoined 7,
               ChatCompletion PROMPT_MODEL
                 (lit ''You are a world-class prompt engineer. Always return in the strict format.'')
                 (build_prompt_refiner (lit ''idea'')),
               ReplyText (WARN @ lit '' Error: '' @ lit ''timeout'') None None False]\<rparr>
   \<and> filter is_send_message
        (trace (snd (prompt_refiner env0 (upd7 (lit ''/prompt idea'')) [lit ''idea''] w3))) = []"
proof -
  have j: "map_of (users w3) (id_u (effective_user (upd7 (lit ''/prompt idea'')))) = Some True"
    by (simp add: w3_def upd7_def user7_def)
  have n: "join_space [lit ''idea''] \<noteq> []"
    by (simp add: lit_def)
  show ?thesis
    using prompt_refiner_pipeline [OF j n, of env0]
    by (simp add: pipeline_events_def exception_events_def log_events_def env0_def w3_def
        upd7_def user7_def)
qed

text \<open>
  Claim C4, amended. For a joined user and a text the handler accepts, a generation call
  that raises is followed by one reply, the warning sign and \<open>Error:\<close> before the text of
  the exception. When the platform accepts that reply, \<open>send_log\<close> follows: nothing with
  \<open>LOG_CHANNEL = 0\<close>, otherwise one message to the log channel with the whole input and
  the first 3500 characters of the error reply as output.
\<close>

theorem generation_error_reply_then_log:
  assumes joined: "map_of (users st) (id_u (effective_user upd)) = Some True"
  shows "(user_text_of upd args \<noteq> [] \<and> \<not> startswith (user_text_of upd args) (lit ''/explain'')
          \<and> completion e EXPLAIN_MODEL (lit ''You explain at multiple levels clearly.'')
               (build_explain_prompt (user_text_of upd args)) = Inl ex \<longrightarrow>
          new_events st (snd (explain e upd args st)) =
            [DbIsJoined (id_u (effective_user upd)),
             ChatCompletion EXPLAIN_MODEL (lit ''You explain at multiple levels clearly.'')
               (build_explain_prompt (user_text_of upd args)),
             ReplyText (WARN @ lit '' Error: '' @ exn_text ex) None None False]
            @ (case telegram e (ReplyText (WARN @ lit '' Error: '' @ exn_text ex) None None False) of
                 None \<Rightarrow> log_events e (Some (effective_user upd)) (lit ''explain'')
                           (user_text_of upd args) (WARN @ lit '' Error: '' @ exn_text ex)
               | Some ex' \<Rightarrow> []))
       \<and> (join_space args' \<noteq> []
          \<and> completion e PROMPT_MODEL
               (lit ''You are a world-class prompt engineer. Always return in the strict format.'')
               (build_prompt_refiner (join_space args')) = Inl ex \<longrightarrow>
          new_events st (snd (prompt_refiner e upd args' st)) =
            [DbIsJoined (id_u (effective_user upd)),
             ChatCompletion PROMPT_MODEL
               (lit ''You are a world-class prompt engineer. Always return in the strict format.'')
               (build_prompt_refiner (join_space args')),
             ReplyText (WARN @ lit '' Error: '' @ exn_text ex) None None False]
            @ (case telegram e (ReplyText (WARN @ lit '' Error: '' @ exn_text ex) None None False) of
                 None \<Rightarrow> log_events e (Some (effective_user upd)) (lit ''prompt'')
                           (join_space args') (WARN @ lit '' Error: '' @ exn_text ex)
               | Some ex' \<Rightarrow> []))
       \<and> (LOG_CHANNEL e = 0 \<longrightarrow> log_events e usr c ut a = [])
       \<and> (LOG_CHANNEL e \<noteq> 0 \<longrightarrow>
            log_events e usr c ut a =
              SendMessage (LOG_CHANNEL e) (log_msg usr c ut a) HTML #
                (case telegram e (SendMessage (LOG_CHANNEL e) (log_msg usr c ut a) HTML) of
                   None \<Rightarrow> []
                 | Some ex' \<Rightarrow> [Print (WARN @ lit '' Log send error: '' @ exn_text ex')]))
       \<and> (\<exists>head. \<forall>ut a. log_msg usr c ut a =
            head @ ut @ nl @ nl @ [128228] @ lit '' Output:'' @ nl @ take 3500 a)"
proof (intro conjI impI)
  assume h: "user_text_of upd args \<noteq> [] \<and> \<not> startswith (user_text_of upd args) (lit ''/explain'')
          \<and> completion e EXPLAIN_MODEL (lit ''You explain at multiple levels clearly.'')
               (build_explain_prompt (user_text_of upd args)) = Inl ex"
  then have a: "user_text_of upd args \<noteq> []"
    and b: "\<not> startswith (user_text_of upd args) (lit ''/explain'')" by auto
  show "new_events st (snd (explain e upd args st)) =
            [DbIsJoined (id_u (effective_user upd)),
             ChatCompletion EXPLAIN_MODEL (lit ''You explain at multiple levels clearly.'')
               (build_explain_prompt (user_text_of upd args)),
             ReplyText (WARN @ lit '' Error: '' @ exn_text ex) None None False]
            @ (case telegram e (ReplyText (WARN @ lit '' Error: '' @ exn_text ex) None None False) of
                 None \<Rightarrow> log_events e (Some (effective_user upd)) (lit ''explain'')
                           (user_text_of upd args) (WARN @ lit '' Error: '' @ exn_text ex)
               | Some ex' \<Rightarrow> [])"
    using h by (simp add: explain_pipeline [OF joined a b] pipeline_events_def exception_events_def)
next
  assume h: "join_space args' \<noteq> []
          \<and> completion e PROMPT_MODEL
               (lit ''You are a world-class prompt engineer. Always return in the strict format.'')
               (build_prompt_refiner (join_space args')) = Inl ex"
  then have a: "join_space args' \<noteq> []" by auto
  show "new_events st (snd (prompt_refiner e upd args' st)) =
            [DbIsJoined (id_u (effective_user upd)),
             ChatCompletion PROMPT_MODEL
               (lit ''You are a world-class prompt engineer. Always return in the strict format.'')
               (build_prompt_refiner (join_space args')),
             ReplyText (WARN @ lit '' Error: '' @ exn_text ex) None None False]
            @ (case telegram e (ReplyText (WARN @ lit '' Error: '' @ exn_text ex) None None False) of
                 None \<Rightarrow> log_events e (Some (effective_user upd)) (lit ''prompt'')
                           (join_space args') (WARN @ lit '' Error: '' @ exn_text ex)
               | Some ex' \<Rightarrow> [])"
    using h by (simp add: prompt_refiner_pipeline [OF joined a] pipeline_events_def exception_events_def)
next
  assume "LOG_CHANNEL e = 0"
  then show "log_events e usr c ut a = []" by (simp add: log_events_def)
next
  assume "LOG_CHANNEL e \<noteq> 0"
  then show "log_events e usr c ut a =
              SendMessage (LOG_CHANNEL e) (log_msg usr c ut a) HTML #
                (case telegram e (SendMessage (LOG_CHANNEL e) (log_msg usr c ut a) HTML) of
                   None \<Rightarrow> []
                 | Some ex' \<Rightarrow> [Print (WARN @ lit '' Log send error: '' @ exn_text ex')])"
    by (simp add: log_events_def)
next
  show "\<exists>head. \<forall>ut a. log_msg usr c ut a =
            head @ ut @ nl @ nl @ [128228] @ lit '' Output:'' @ nl @ take 3500 a"
    by (rule log_msg_shape)
qed

theorem generation_error_reply_then_log_witness:
  "map_of (users w3) (id_u (effective_user (upd7 (lit ''/prompt idea'')))) = Some True
   \<and> join_space [lit ''idea''] \<noteq> []
   \<and> completion env_log PROMPT_MODEL
       (lit ''You are a world-class prompt engineer. Always return in the strict format.'')
       (build_prompt_refiner (join_space [lit ''idea''])) = Inl (Error (lit ''timeout''))
   \<and> LOG_CHANNEL env_log \<noteq> 0
   \<and> new_events w3 (snd (prompt_refiner env_log (upd7 (lit ''/prompt idea'')) [lit ''idea''] w3)) =
       [DbIsJoined 7,
        ChatCompletion PROMPT_MODEL
          (lit ''You are a world-class prompt engineer. Always return in the strict format.'')
          (build_prompt_refiner (lit ''idea'')),
        ReplyText (WARN @ lit '' Error: '' @ lit ''timeout'') None None False,
        SendMessage (- 100)
          (log_msg (Some user7) (lit ''prompt'') (lit ''idea'') (WARN @ lit '' Error: '' @ lit ''timeout''))
          HTML]"
proof -
  have j: "map_of (users w3) (id_u (effective_user (upd7 (lit ''/prompt idea'')))) = Some True"
    by (simp add: w3_def upd7_def user7_def)
  have n: "join_space [lit ''idea''] \<noteq> []"
    by (simp add: lit_def)
  have c: "completion env_log PROMPT_MODEL
       (lit ''You are a world-class prompt engineer. Always return in the strict format.'')
       (build_prompt_refiner (join_space [lit ''idea''])) = Inl (Error (lit ''timeout''))"
    by (simp add: env_log_def env0_def)
  have l: "LOG_CHANNEL env_log \<noteq> 0" by (simp add: env_log_def env0_def)
  have t: "telegram env_log ev = None" for ev by (simp add: env_log_def env0_def)
  have v: "LOG_CHANNEL env_log = - 100" by (simp add: env_log_def env0_def)
  show ?thesis
    using j n c l
      generation_error_reply_then_log [OF j, where args' = "[lit ''idea'']" and e = env_log
        and ex = "Error (lit ''timeout'')" and args = None and usr = "Some user7"
        and c = "lit ''prompt''" and ut = "lit ''idea''"
        and a = "WARN @ lit '' Error: '' @ lit ''timeout''"]
    by (simp add: t v upd7_def user7_def)
qed

end
